theory Spec2Isabelle
  imports Main "HOL-Library.Multiset"
begin

section \<open>Values, errors and the pieces of the Python library the scripts call\<close>

text \<open>
  The repository holds two scripts: \<^verbatim>\<open>explode_json.py\<close> (the splitter) and
  \<^verbatim>\<open>enrich-knowledge-content.py\<close> (the enricher). Both work on values read by
  \<^verbatim>\<open>json.load\<close>: \<^verbatim>\<open>None\<close>, booleans, integers, floats, strings, lists and
  dictionaries keyed by strings. A dictionary is an association list in insertion order;
  lookup is \<open>map_of\<close> and assignment is \<open>AList_update\<close> below, which keeps the position of
  a key that is already there, as a Python \<^verbatim>\<open>dict\<close> does.

  A Python \<^verbatim>\<open>str\<close> is a \<open>string\<close> whose characters stand for code points (those below
  256). A float is a value of the type parameter \<open>'f\<close>: the scripts never compute with
  one, they only hand it to the library.
\<close>

datatype 'f json =
    JNull
  | JBool bool
  | JInt int
  | JFloat 'f
  | JStr string
  | JArr "'f json list"
  | JObj "(string \<times> 'f json) list"

datatype py_error =
    TypeError
  | KeyError
  | AttributeError
  | ValueError
  | OSError
  | JSONDecodeError

text \<open>
  The library functions are not code of the repository. The JSON codec and the printing
  of a float are taken as a parameter \<open>lib\<close>:
  \<^item> \<open>loads lib s\<close> is \<^verbatim>\<open>json.loads(s)\<close>, and \<^verbatim>\<open>json.load\<close> on a file holding \<open>s\<close>;
    \<open>None\<close> when it raises;
  \<^item> \<open>dumps lib a v\<close> is the text \<^verbatim>\<open>json.dump(v, f, indent=2, ensure_ascii=a)\<close> writes;
  \<^item> \<open>float_repr lib x\<close> is \<^verbatim>\<open>repr(x)\<close> of a float.
  A concrete codec for running the scripts on concrete files is \<open>std_lib\<close> below.
\<close>

record 'f pylib =
  loads :: "string \<Rightarrow> 'f json option"
  dumps :: "bool \<Rightarrow> 'f json \<Rightarrow> string"
  float_repr :: "'f \<Rightarrow> string"

subsection \<open>Dictionaries\<close>

fun AList_update :: "string \<Rightarrow> 'v \<Rightarrow> (string \<times> 'v) list \<Rightarrow> (string \<times> 'v) list" where
  "AList_update k v [] = [(k, v)]"
| "AList_update k v (p # ps) = (if fst p = k then (k, v) # ps else p # AList_update k v ps)"

text \<open>\<^verbatim>\<open>d.update(other)\<close>: assigns the items of \<open>other\<close> in their order.\<close>

fun dict_update :: "(string \<times> 'v) list \<Rightarrow> (string \<times> 'v) list \<Rightarrow> (string \<times> 'v) list" where
  "dict_update d [] = d"
| "dict_update d (kv # other) = dict_update (AList_update (fst kv) (snd kv) d) other"

text \<open>\<^verbatim>\<open>d.get(k, default)\<close> on a dictionary.\<close>

definition dict_get :: "(string \<times> 'v) list \<Rightarrow> string \<Rightarrow> 'v \<Rightarrow> 'v" where
  "dict_get d k dflt = (case map_of d k of None \<Rightarrow> dflt | Some v \<Rightarrow> v)"

subsection \<open>Strings\<close>

fun is_substring :: "string \<Rightarrow> string \<Rightarrow> bool" where
  "is_substring p [] = (p = [])"
| "is_substring p (c # cs) = (take (length p) (c # cs) = p \<or> is_substring p cs)"

definition ends_with :: "string \<Rightarrow> string \<Rightarrow> bool" where
  "ends_with s suffix = (length suffix \<le> length s \<and> drop (length s - length suffix) s = suffix)"

definition digit_char :: "nat \<Rightarrow> char" where
  "digit_char d = char_of (of_char CHR ''0'' + d)"

function show_nat :: "nat \<Rightarrow> string" where
  "show_nat n = (if n < 10 then [digit_char n] else show_nat (n div 10) @ [digit_char (n mod 10)])"
  by pat_completeness auto
termination
  by (relation "measure id") auto

definition show_int :: "int \<Rightarrow> string" where
  "show_int i = (if i < 0 then CHR ''-'' # show_nat (nat (- i)) else show_nat (nat i))"

definition hex_char :: "nat \<Rightarrow> char" where
  "hex_char d = (if d < 10 then digit_char d else char_of (of_char CHR ''a'' + (d - 10)))"

text \<open>\<^verbatim>\<open>str.isspace\<close> and \<^verbatim>\<open>str.isprintable\<close> on one code point below 256.\<close>

definition py_isspace :: "char \<Rightarrow> bool" where
  "py_isspace c = (let n = (of_char c :: nat) in
     (9 \<le> n \<and> n \<le> 13) \<or> (28 \<le> n \<and> n \<le> 32) \<or> n = 133 \<or> n = 160)"

definition py_isprintable :: "char \<Rightarrow> bool" where
  "py_isprintable c = (let n = (of_char c :: nat) in
     (32 \<le> n \<and> n < 127) \<or> (161 \<le> n \<and> n \<noteq> 173))"

text \<open>\<^verbatim>\<open>s.strip()\<close>.\<close>

definition py_strip :: "string \<Rightarrow> string" where
  "py_strip s = rev (dropWhile py_isspace (rev (dropWhile py_isspace s)))"

text \<open>\<^verbatim>\<open>s.find(c)\<close> and \<^verbatim>\<open>s.rfind(c)\<close> for a single character: an index, or \<open>-1\<close>.\<close>

fun py_find :: "char \<Rightarrow> string \<Rightarrow> int" where
  "py_find c [] = - 1"
| "py_find c (x # xs) =
     (if x = c then 0 else (let r = py_find c xs in if r < 0 then - 1 else r + 1))"

definition py_rfind :: "char \<Rightarrow> string \<Rightarrow> int" where
  "py_rfind c s = (let r = py_find c (rev s) in if r < 0 then - 1 else int (length s) - 1 - r)"

text \<open>\<^verbatim>\<open>s[i:j]\<close> for \<open>0 \<le> i\<close> and \<open>0 \<le> j\<close>, the only case the scripts reach.\<close>

definition py_slice :: "'a list \<Rightarrow> int \<Rightarrow> int \<Rightarrow> 'a list" where
  "py_slice s i j = take (nat j - nat i) (drop (nat i) s)"

subsection \<open>\<^verbatim>\<open>repr\<close> and \<^verbatim>\<open>str\<close>\<close>

definition repr_char :: "char \<Rightarrow> char \<Rightarrow> string" where
  "repr_char quote c =
     (if c = quote \<or> c = CHR 0x5C then [CHR 0x5C, c]
      else if c = CHR 0x09 then [CHR 0x5C, CHR ''t'']
      else if c = CHR 0x0A then [CHR 0x5C, CHR ''n'']
      else if c = CHR 0x0D then [CHR 0x5C, CHR ''r'']
      else if py_isprintable c then [c]
      else [CHR 0x5C, CHR ''x'', hex_char (of_char c div 16), hex_char (of_char c mod 16)])"

definition repr_str :: "string \<Rightarrow> string" where
  "repr_str s =
     (let quote = (if CHR 0x27 \<in> set s \<and> CHR 0x22 \<notin> set s then CHR 0x22 else CHR 0x27)
      in quote # concat (map (repr_char quote) s) @ [quote])"

fun join :: "string \<Rightarrow> string list \<Rightarrow> string" where
  "join sep [] = []"
| "join sep [x] = x"
| "join sep (x # y # ys) = x @ sep @ join sep (y # ys)"

fun py_repr :: "('f \<Rightarrow> string) \<Rightarrow> 'f json \<Rightarrow> string" where
  "py_repr fr JNull = ''None''"
| "py_repr fr (JBool b) = (if b then ''True'' else ''False'')"
| "py_repr fr (JInt i) = show_int i"
| "py_repr fr (JFloat x) = fr x"
| "py_repr fr (JStr s) = repr_str s"
| "py_repr fr (JArr xs) = ''['' @ join '', '' (map (py_repr fr) xs) @ '']''"
| "py_repr fr (JObj kvs) =
     ''{'' @ join '', '' (map (\<lambda>(k, v). repr_str k @ '': '' @ py_repr fr v) kvs) @ ''}''"

fun py_str :: "('f \<Rightarrow> string) \<Rightarrow> 'f json \<Rightarrow> string" where
  "py_str fr (JStr s) = s"
| "py_str fr v = py_repr fr v"

subsection \<open>The operators \<^verbatim>\<open>in\<close> and \<^verbatim>\<open>[]\<close>\<close>

text \<open>
  \<^verbatim>\<open>key in obj\<close> for a string \<open>key\<close>: a key test on a dictionary, a membership test on
  a list, a substring test on a string, and a \<^verbatim>\<open>TypeError\<close> on anything else.
\<close>

fun py_in :: "string \<Rightarrow> 'f json \<Rightarrow> py_error + bool" where
  "py_in key (JObj d) = Inr (key \<in> fst ` set d)"
| "py_in key (JArr xs) = Inr (JStr key \<in> set xs)"
| "py_in key (JStr s) = Inr (is_substring key s)"
| "py_in key _ = Inl TypeError"

text \<open>\<^verbatim>\<open>obj[key]\<close> for a string \<open>key\<close>.\<close>

fun py_getitem :: "'f json \<Rightarrow> string \<Rightarrow> py_error + 'f json" where
  "py_getitem (JObj d) key = (case map_of d key of None \<Rightarrow> Inl KeyError | Some v \<Rightarrow> Inr v)"
| "py_getitem _ key = Inl TypeError"

section \<open>The world the scripts run in\<close>

text \<open>
  A path names nothing, a file with text, or something that exists and cannot be read as
  text (a directory, a file without read permission, bytes that do not decode). Writing
  replaces what the path names. \<open>written\<close> lists the paths opened for writing, oldest
  first; \<open>dirs\<close> gives the entry names of each directory that exists, in the order
  the operating system lists them; \<open>calls\<close> the prompts handed to the external tool; \<open>stdout\<close> the lines printed.
  A write that the operating system refuses, and the log file of the \<^verbatim>\<open>logging\<close>
  module, are outside this model.
\<close>

datatype fnode = Content string | Unreadable

record world =
  files :: "string \<rightharpoonup> fnode"
  dirs :: "string \<rightharpoonup> string list"
  written :: "string list"
  calls :: "string list"
  stdout :: "string list"

definition read_text :: "world \<Rightarrow> string \<Rightarrow> py_error + string" where
  "read_text w path =
     (case files w path of
        Some (Content s) \<Rightarrow> Inr s
      | _ \<Rightarrow> Inl OSError)"

definition write_text :: "string \<Rightarrow> string \<Rightarrow> world \<Rightarrow> world" where
  "write_text path s w = w\<lparr>files := (files w)(path \<mapsto> Content s), written := written w @ [path]\<rparr>"


text \<open>\<^verbatim>\<open>os.path.join(a, b)\<close> on POSIX.\<close>

definition path_join :: "string \<Rightarrow> string \<Rightarrow> string" where
  "path_join a b =
     (if b \<noteq> [] \<and> hd b = CHR ''/'' then b
      else if a = [] \<or> last a = CHR ''/'' then a @ b
      else a @ ''/'' @ b)"

section \<open>The splitter, \<^verbatim>\<open>explode_json.py\<close>\<close>



datatype outcome = Finished | Exited nat | Raised py_error






text \<open>
  Recombining: the JSON values in the files a run wrote, one per path it opened for
  writing.
\<close>

definition read_json :: "'f pylib \<Rightarrow> world \<Rightarrow> string \<Rightarrow> 'f json option" where
  "read_json lib w path = (case read_text w path of Inl e \<Rightarrow> None | Inr s \<Rightarrow> loads lib s)"





section \<open>The enricher, \<^verbatim>\<open>enrich-knowledge-content.py\<close>\<close>

subsection \<open>The processed set\<close>

text \<open>
  \<open>processed_files\<close> is a Python \<^verbatim>\<open>set\<close>: a list without repetition, in an order of the
  model's choosing (insertion order; Python promises none). Its elements are the
  hashable JSON values. \<^verbatim>\<open>True\<close> and \<^verbatim>\<open>1\<close>, and \<^verbatim>\<open>False\<close> and \<^verbatim>\<open>0\<close>, are one element,
  as in Python. Floats are compared as values of \<open>'f\<close> and never identified with an
  integer: the one place where this model does not follow Python's equality.
\<close>

fun py_eq :: "'f json \<Rightarrow> 'f json \<Rightarrow> bool" where
  "py_eq (JBool b) (JInt i) = (i = (if b then 1 else 0))"
| "py_eq (JInt i) (JBool b) = (i = (if b then 1 else 0))"
| "py_eq x y = (x = y)"

definition set_member :: "'f json \<Rightarrow> 'f json list \<Rightarrow> bool" where
  "set_member x s = list_ex (py_eq x) s"

definition set_add :: "'f json \<Rightarrow> 'f json list \<Rightarrow> 'f json list" where
  "set_add x s = (if set_member x s then s else s @ [x])"

fun hashable :: "'f json \<Rightarrow> bool" where
  "hashable (JArr xs) = False"
| "hashable (JObj d) = False"
| "hashable v = True"

text \<open>\<^verbatim>\<open>set(v)\<close>: the elements of an iterable, \<^verbatim>\<open>TypeError\<close> when \<open>v\<close> is not iterable or
  an element is not hashable.\<close>

fun set_of_list :: "'f json list \<Rightarrow> 'f json list \<Rightarrow> py_error + 'f json list" where
  "set_of_list [] acc = Inr acc"
| "set_of_list (x # xs) acc = (if hashable x then set_of_list xs (set_add x acc) else Inl TypeError)"

fun py_set :: "'f json \<Rightarrow> py_error + 'f json list" where
  "py_set (JArr xs) = set_of_list xs []"
| "py_set (JObj d) = set_of_list (map (JStr \<circ> fst) d) []"
| "py_set (JStr s) = set_of_list (map (\<lambda>c. JStr [c]) s) []"
| "py_set v = Inl TypeError"

subsection \<open>The class \<^verbatim>\<open>KnowledgeContentEnricher\<close>\<close>

record 'f enricher =
  input_folder :: string
  progress_log_file :: string
  processed_files :: "'f json list"

text \<open>\<^verbatim>\<open>_load_progress\<close>. \<^verbatim>\<open>Path.exists\<close> holds of every path that names something.\<close>

definition load_progress :: "'f pylib \<Rightarrow> world \<Rightarrow> 'f enricher \<Rightarrow> 'f enricher" where
  "load_progress lib w e =
     (case files w (progress_log_file e) of
        None \<Rightarrow> e
      | Some node \<Rightarrow>
          (case read_text w (progress_log_file e) of
             Inl err \<Rightarrow> e\<lparr>processed_files := []\<rparr>
           | Inr s \<Rightarrow>
               (case loads lib s of
                  None \<Rightarrow> e\<lparr>processed_files := []\<rparr>
                | Some (JObj progress_data) \<Rightarrow>
                    (case py_set (dict_get progress_data ''processed_files'' (JArr [])) of
                       Inl err \<Rightarrow> e\<lparr>processed_files := []\<rparr>
                     | Inr ps \<Rightarrow> e\<lparr>processed_files := ps\<rparr>)
                | Some other \<Rightarrow> e\<lparr>processed_files := []\<rparr>)))"

text \<open>\<^verbatim>\<open>__init__\<close>: \<^verbatim>\<open>ValueError\<close> when the input folder does not exist.\<close>

definition init :: "'f pylib \<Rightarrow> world \<Rightarrow> string \<Rightarrow> string \<Rightarrow> py_error + 'f enricher" where
  "init lib w folder log_file =
     (if dirs w folder = None then Inl ValueError
      else Inr (load_progress lib w
             \<lparr>input_folder = folder, progress_log_file = log_file, processed_files = []\<rparr>))"

text \<open>
  \<^verbatim>\<open>_save_progress\<close>, with \<open>now\<close> the value of \<^verbatim>\<open>time.time()\<close>. The default
  \<^verbatim>\<open>ensure_ascii=True\<close> applies.
\<close>

definition progress_data :: "'f \<Rightarrow> 'f enricher \<Rightarrow> (string \<times> 'f json) list" where
  "progress_data now e =
     [(''processed_files'', JArr (processed_files e)),
      (''last_updated'', JFloat now),
      (''total_processed'', JInt (int (length (processed_files e))))]"

definition save_progress :: "'f pylib \<Rightarrow> 'f \<Rightarrow> 'f enricher \<Rightarrow> world \<Rightarrow> world" where
  "save_progress lib now e w =
     write_text (progress_log_file e) (dumps lib True (JObj (progress_data now e))) w"

text \<open>
  \<^verbatim>\<open>_get_json_files\<close>: the entries of the input folder that match \<^verbatim>\<open>*.json\<close> and are not
  in the processed set, as names; \<open>file_path\<close> is the path \<^verbatim>\<open>glob\<close> returns for a name.
\<close>

definition all_json_files :: "world \<Rightarrow> 'f enricher \<Rightarrow> string list" where
  "all_json_files w e =
     (case dirs w (input_folder e) of
        None \<Rightarrow> []
      | Some names \<Rightarrow> filter (\<lambda>name. ends_with name ''.json'') names)"

definition get_json_files :: "world \<Rightarrow> 'f enricher \<Rightarrow> string list" where
  "get_json_files w e =
     filter (\<lambda>name. \<not> set_member (JStr name) (processed_files e)) (all_json_files w e)"

definition file_path :: "'f enricher \<Rightarrow> string \<Rightarrow> string" where
  "file_path e name = path_join (input_folder e) name"

subsection \<open>The prompt\<close>

definition prompt_context :: string where
  "prompt_context =
     ''You are helping to categorize knowledge content for the Phoenix Framework, an ''
   @ ''interactive decision sprint system designed to help startup founders break ''
   @ ''through analysis paralysis and make high-stakes decisions with confidence.\<newline>''
   @ ''\<newline>''
   @ ''PROJECT CONTEXT:\<newline>''
   @ ''The Phoenix Framework addresses the acute pain of decision paralysis that ''
   @ ''startup founders experience. It uses a semantically searchable knowledge base ''
   @ ''of mental models, cognitive biases, and strategic frameworks to guide founders ''
   @ ''from chaotic uncertainty to confident, committed action. The system needs to ''
   @ ''quickly surface the most relevant knowledge content based on the founder's ''
   @ ''specific situation, persona, startup phase, and problem category.\<newline>''
   @ ''\<newline>''
   @ ''KNOWLEDGE CONTENT TO ANALYZE:\<newline>''"

definition prompt_task :: string where
  "prompt_task =
     ''\<newline>''
   @ ''\<newline>''
   @ ''CATEGORIZATION TASK:\<newline>''
   @ ''Based on this content and its relevance to helping startup founders make better ''
   @ ''decisions, please suggest appropriate values for these targeting fields:\<newline>''
   @ ''\<newline>''
   @ ''1. target_persona: Select from [founder, executive, investor, product_manager]\<newline>''
   @ ''   - Which personas would most benefit from this knowledge when facing a ''
   @ ''difficult decision?\<newline>''
   @ ''   - Founders are our primary audience, but consider other roles that might ''
   @ ''find this knowledge valuable\<newline>''
   @ ''   - You can select multiple values\<newline>''
   @ ''\<newline>''
   @ ''2. startup_phase: Select from [ideation, seed, growth, scale-up, crisis]\<newline>''
   @ ''   - At which startup phases would this knowledge be most relevant for ''
   @ ''decision-making?\<newline>''
   @ ''   - Consider when founders typically face the types of problems this knowledge ''
   @ ''addresses\<newline>''
   @ ''   - You can select multiple values\<newline>''
   @ ''\<newline>''
   @ ''3. problem_category: Select from [pivot, hiring, fundraising, ''
   @ ''co-founder_conflict, product-market_fit, go-to-market, team_and_culture, ''
   @ ''operations, competitive_strategy, pricing, risk_management]\<newline>''
   @ ''   - Which problem categories does this knowledge help address when founders ''
   @ ''are stuck in analysis paralysis?\<newline>''
   @ ''   - Think about the specific high-stakes decisions this knowledge would inform\<newline>''
   @ ''   - You can select multiple values\<newline>''
   @ ''\<newline>''"

definition prompt_format :: string where
  \<open>prompt_format =
     ''Please respond with ONLY a valid JSON object in this exact format:\<newline>''
   @ ''{\<newline>''
   @ ''    "target_persona": ["persona1", "persona2"],\<newline>''
   @ ''    "startup_phase": ["phase1", "phase2"],\<newline>''
   @ ''    "problem_category": ["category1", "category2"]\<newline>''
   @ ''}\<newline>''
   @ ''\<newline>''
   @ ''Do not include any explanation or additional text, just the JSON object.''\<close>

text \<open>\<^verbatim>\<open>x[:500]\<close> together with \<^verbatim>\<open>len(x)\<close>: defined on strings and lists.\<close>

fun head_500 :: "'f json \<Rightarrow> py_error + 'f json \<times> nat" where
  "head_500 (JStr s) = Inr (JStr (py_slice s 0 500), length s)"
| "head_500 (JArr xs) = Inr (JArr (py_slice xs 0 500), length xs)"
| "head_500 v = Inl TypeError"

text \<open>
  \<^verbatim>\<open>_create_claude_prompt\<close>. \<^verbatim>\<open>knowledge_data.get\<close> raises \<^verbatim>\<open>AttributeError\<close> on
  anything but a dictionary; a formatted field is \<^verbatim>\<open>str\<close> of its value.
\<close>

definition create_claude_prompt :: "'f pylib \<Rightarrow> 'f json \<Rightarrow> py_error + string" where
  "create_claude_prompt lib knowledge_data =
     (case knowledge_data of
        JObj d \<Rightarrow>
          (let title = dict_get d ''knowledge_piece_name'' (JStr ''Unknown'');
               main_category = dict_get d ''main_category'' (JStr []);
               subcategory = dict_get d ''subcategory'' (JStr []);
               definition = dict_get d ''definition'' (JStr []);
               extra_content = dict_get d ''extra_content'' (JStr []);
               str = py_str (float_repr lib)
           in case head_500 extra_content of
                Inl err \<Rightarrow> Inl err
              | Inr (extra_head, len) \<Rightarrow>
                  Inr (prompt_context
                     @ ''Title: '' @ str title @ ''\<newline>''
                     @ ''Main Category: '' @ str main_category @ ''\<newline>''
                     @ ''Subcategory: '' @ str subcategory @ ''\<newline>''
                     @ ''Definition: '' @ str definition @ ''\<newline>''
                     @ ''Extra Content: '' @ str extra_head @ (if len > 500 then ''...'' else [])
                     @ prompt_task @ prompt_format))
      | other \<Rightarrow> Inl AttributeError)"

subsection \<open>Calling the external tool\<close>

text \<open>
  One run of \<^verbatim>\<open>claude --print prompt\<close> ends with exit status 0 and its standard output,
  with the timeout, with another exit status, or with some other exception (the program
  is missing, the output does not decode). What the tool answers may depend on the
  prompts it was given before.
\<close>

datatype tool_result =
    Completed string
  | TimeoutExpired
  | CalledProcessError int string
  | OtherException

type_synonym tool = "string list \<Rightarrow> string \<Rightarrow> tool_result"

text \<open>Lines 152 to 163: from the standard output to the parsed object.\<close>

definition parse_response :: "'f pylib \<Rightarrow> string \<Rightarrow> 'f json option" where
  "parse_response lib out =
     (let response_text = py_strip out;
          start_idx = py_find CHR ''{'' response_text;
          end_idx = py_rfind CHR ''}'' response_text + 1
      in if start_idx \<ge> 0 \<and> end_idx > start_idx
         then loads lib (py_slice response_text start_idx end_idx)
         else None)"

definition call_claude_code :: "'f pylib \<Rightarrow> tool \<Rightarrow> string \<Rightarrow> world \<Rightarrow> 'f json option \<times> world" where
  "call_claude_code lib tool prompt w =
     (case tool (calls w) prompt of
        Completed out \<Rightarrow> parse_response lib out
      | failure \<Rightarrow> None,
      w\<lparr>calls := calls w @ [prompt]\<rparr>)"

subsection \<open>Validation\<close>

definition expected_fields :: "string list" where
  "expected_fields = [''target_persona'', ''startup_phase'', ''problem_category'']"

definition valid_values :: "string \<Rightarrow> string list" where
  "valid_values field =
     (if field = ''target_persona'' then [''founder'', ''executive'', ''investor'', ''product_manager'']
      else if field = ''startup_phase'' then [''ideation'', ''seed'', ''growth'', ''scale-up'', ''crisis'']
      else if field = ''problem_category'' then
        [''pivot'', ''hiring'', ''fundraising'', ''co-founder_conflict'',
         ''product-market_fit'', ''go-to-market'', ''team_and_culture'',
         ''operations'', ''competitive_strategy'', ''pricing'', ''risk_management'']
      else [])"

text \<open>The inner loop, \<^verbatim>\<open>value not in valid_set\<close>: hashing a list or a dictionary raises.\<close>

fun check_values :: "string list \<Rightarrow> 'f json list \<Rightarrow> py_error + bool" where
  "check_values valid_set [] = Inr True"
| "check_values valid_set (JStr s # vs) =
     (if s \<in> set valid_set then check_values valid_set vs else Inr False)"
| "check_values valid_set (v # vs) = (if hashable v then Inr False else Inl TypeError)"

fun check_fields :: "string list \<Rightarrow> 'f json \<Rightarrow> py_error + bool" where
  "check_fields [] response = Inr True"
| "check_fields (field # rest) response =
     (case py_in field response of
        Inl err \<Rightarrow> Inl err
      | Inr False \<Rightarrow> Inr False
      | Inr True \<Rightarrow>
          (case py_getitem response field of
             Inl err \<Rightarrow> Inl err
           | Inr (JArr field_value) \<Rightarrow>
               (case check_values (valid_values field) field_value of
                  Inl err \<Rightarrow> Inl err
                | Inr False \<Rightarrow> Inr False
                | Inr True \<Rightarrow> check_fields rest response)
           | Inr other \<Rightarrow> Inr False))"

definition validate_claude_response :: "'f json \<Rightarrow> py_error + bool" where
  "validate_claude_response response = check_fields expected_fields response"

subsection \<open>Enriching\<close>

text \<open>\<^verbatim>\<open>all(field in content for field in fields)\<close>: stops at the first \<^verbatim>\<open>False\<close>.\<close>

fun all_in :: "string list \<Rightarrow> 'f json \<Rightarrow> py_error + bool" where
  "all_in [] content = Inr True"
| "all_in (field # rest) content =
     (case py_in field content of
        Inl err \<Rightarrow> Inl err
      | Inr False \<Rightarrow> Inr False
      | Inr True \<Rightarrow> all_in rest content)"

text \<open>
  \<^verbatim>\<open>_enrich_file\<close>: every exception inside is caught and turned into \<^verbatim>\<open>False\<close>.
\<close>

definition enrich_file :: "'f pylib \<Rightarrow> tool \<Rightarrow> string \<Rightarrow> world \<Rightarrow> bool \<times> world" where
  "enrich_file lib tool path w =
     (case read_text w path of
        Inl err \<Rightarrow> (False, w)
      | Inr s \<Rightarrow>
     (case loads lib s of
        None \<Rightarrow> (False, w)
      | Some content \<Rightarrow>
     (case all_in [''target_persona'', ''startup_phase'', ''problem_category''] content of
        Inl err \<Rightarrow> (False, w)
      | Inr True \<Rightarrow> (True, w)
      | Inr False \<Rightarrow>
     (case create_claude_prompt lib content of
        Inl err \<Rightarrow> (False, w)
      | Inr prompt \<Rightarrow>
     (case call_claude_code lib tool prompt w of
        (None, w') \<Rightarrow> (False, w')
      | (Some claude_response, w') \<Rightarrow>
     (case validate_claude_response claude_response of
        Inl err \<Rightarrow> (False, w')
      | Inr False \<Rightarrow> (False, w')
      | Inr True \<Rightarrow>
     (case (content, claude_response) of
        (JObj c, JObj r) \<Rightarrow>
          (True, write_text path (dumps lib False (JObj (dict_update c r))) w')
      | other \<Rightarrow> (False, w'))))))))"

text \<open>
  The loop of \<^verbatim>\<open>enrich_all_files\<close>. \<open>clock k\<close> is the \<open>k\<close>-th value \<^verbatim>\<open>time.time()\<close>
  returns; the pause between files is not modelled. \<open>attempted\<close> lists the names
  handed to \<^verbatim>\<open>_enrich_file\<close>, oldest first.
\<close>

record 'f run =
  self :: "'f enricher"
  env :: world
  successful_count :: nat
  failed_count :: nat
  attempted :: "string list"

fun enrich_loop :: "'f pylib \<Rightarrow> tool \<Rightarrow> (nat \<Rightarrow> 'f) \<Rightarrow> string list \<Rightarrow> 'f run \<Rightarrow> 'f run" where
  "enrich_loop lib tool clock [] r = r"
| "enrich_loop lib tool clock (name # rest) r =
     (case enrich_file lib tool (file_path (self r) name) (env r) of
        (True, w') \<Rightarrow>
          (let e' = (self r)\<lparr>processed_files := set_add (JStr name) (processed_files (self r))\<rparr>
           in enrich_loop lib tool clock rest
                (r\<lparr>self := e',
                   env := save_progress lib (clock (successful_count r)) e' w',
                   successful_count := successful_count r + 1,
                   attempted := attempted r @ [name]\<rparr>))
      | (False, w') \<Rightarrow>
          enrich_loop lib tool clock rest
            (r\<lparr>env := w', failed_count := failed_count r + 1,
               attempted := attempted r @ [name]\<rparr>))"

definition enrich_all_files :: "'f pylib \<Rightarrow> tool \<Rightarrow> (nat \<Rightarrow> 'f) \<Rightarrow> 'f enricher \<Rightarrow> world \<Rightarrow> 'f run" where
  "enrich_all_files lib tool clock e w =
     enrich_loop lib tool clock (get_json_files w e)
       \<lparr>self = e, env = w, successful_count = 0, failed_count = 0, attempted = []\<rparr>"

text \<open>\<^verbatim>\<open>main\<close>, after the arguments are parsed.\<close>

definition main :: "'f pylib \<Rightarrow> tool \<Rightarrow> (nat \<Rightarrow> 'f) \<Rightarrow> string \<Rightarrow> string \<Rightarrow> world \<Rightarrow> world \<times> outcome" where
  "main lib tool clock folder log_file w =
     (case init lib w folder log_file of
        Inl err \<Rightarrow> (w, Exited 1)
      | Inr e \<Rightarrow> (env (enrich_all_files lib tool clock e w), Finished))"


section \<open>A concrete codec\<close>

text \<open>
  \<open>std_lib\<close> reads and prints JSON text as \<^verbatim>\<open>json.loads\<close> and \<^verbatim>\<open>json.dumps\<close> with
  \<^verbatim>\<open>indent=2\<close> do. It holds a float as the number literal that denotes it and prints
  that literal, where Python prints the shortest literal of the same double; and it
  refuses a \<^verbatim>\<open>\u\<close> escape of a code point from 256 on, which the strings here do not hold.
  The theorems below are about every \<open>lib\<close>; \<open>std_lib\<close> serves to run the scripts on
  concrete texts.
\<close>

definition json_space :: "char \<Rightarrow> bool" where
  "json_space c = (c \<in> set [CHR '' '', CHR 0x09, CHR 0x0A, CHR 0x0D])"

definition skip_ws :: "string \<Rightarrow> string" where
  "skip_ws s = dropWhile json_space s"

definition is_digit :: "char \<Rightarrow> bool" where
  "is_digit c = (48 \<le> (of_char c :: nat) \<and> (of_char c :: nat) \<le> 57)"

definition digits_value :: "string \<Rightarrow> int" where
  "digits_value ds = foldl (\<lambda>a c. 10 * a + (int (of_char c) - 48)) 0 ds"

definition hex_value :: "char \<Rightarrow> nat option" where
  "hex_value c = (let n = (of_char c :: nat) in
     if 48 \<le> n \<and> n \<le> 57 then Some (n - 48)
     else if 97 \<le> n \<and> n \<le> 102 then Some (n - 87)
     else if 65 \<le> n \<and> n \<le> 70 then Some (n - 55)
     else None)"

text \<open>The number at the head of \<open>s\<close>: sign, integer part, fraction, exponent.\<close>

definition scan_int_part :: "string \<Rightarrow> (string \<times> string) option" where
  "scan_int_part s =
     (case s of
        [] \<Rightarrow> None
      | c # cs \<Rightarrow>
          if c = CHR ''0'' then Some ([c], cs)
          else if is_digit c then Some (c # takeWhile is_digit cs, dropWhile is_digit cs)
          else None)"

definition scan_frac :: "string \<Rightarrow> string \<times> string" where
  "scan_frac s =
     (case s of
        c # d # cs \<Rightarrow>
          if c = CHR ''.'' \<and> is_digit d
          then (c # d # takeWhile is_digit cs, dropWhile is_digit cs)
          else ([], s)
      | _ \<Rightarrow> ([], s))"

definition scan_exp :: "string \<Rightarrow> string \<times> string" where
  "scan_exp s =
     (case s of
        e # cs \<Rightarrow>
          if e = CHR ''e'' \<or> e = CHR ''E'' then
            (case cs of
               c # d # ds \<Rightarrow>
                 if (c = CHR ''+'' \<or> c = CHR ''-'') \<and> is_digit d
                 then (e # c # d # takeWhile is_digit ds, dropWhile is_digit ds)
                 else if is_digit c
                 then (e # c # takeWhile is_digit (d # ds), dropWhile is_digit (d # ds))
                 else ([], s)
             | [c] \<Rightarrow> if is_digit c then ([e, c], []) else ([], s)
             | [] \<Rightarrow> ([], s))
          else ([], s)
      | [] \<Rightarrow> ([], s))"

definition scan_number :: "string \<Rightarrow> (string json \<times> string) option" where
  "scan_number s =
     (let (sign, s1) = (case s of c # cs \<Rightarrow> if c = CHR ''-'' then ([c], cs) else ([], s) | [] \<Rightarrow> ([], s))
      in case scan_int_part s1 of
           None \<Rightarrow> None
         | Some (ds, s2) \<Rightarrow>
             (let (frac, s3) = scan_frac s2; (ex, s4) = scan_exp s3
              in if frac = [] \<and> ex = []
                 then Some (JInt (if sign = [] then digits_value ds else - digits_value ds), s4)
                 else Some (JFloat (sign @ ds @ frac @ ex), s4)))"

text \<open>The rest of a string literal, after its opening quote.\<close>

fun scan_string :: "string \<Rightarrow> string \<Rightarrow> (string \<times> string) option" where
  "scan_string [] acc = None"
| "scan_string (c # cs) acc =
     (if c = CHR 0x22 then Some (acc, cs)
      else if c = CHR 0x5C then
        (case cs of
           [] \<Rightarrow> None
         | e # es \<Rightarrow>
             if e = CHR 0x22 \<or> e = CHR 0x5C \<or> e = CHR ''/'' then scan_string es (acc @ [e])
             else if e = CHR ''b'' then scan_string es (acc @ [CHR 0x08])
             else if e = CHR ''f'' then scan_string es (acc @ [CHR 0x0C])
             else if e = CHR ''n'' then scan_string es (acc @ [CHR 0x0A])
             else if e = CHR ''r'' then scan_string es (acc @ [CHR 0x0D])
             else if e = CHR ''t'' then scan_string es (acc @ [CHR 0x09])
             else if e = CHR ''u'' then
               (case es of
                  h1 # h2 # h3 # h4 # rest \<Rightarrow>
                    (case (hex_value h1, hex_value h2, hex_value h3, hex_value h4) of
                       (Some a, Some b, Some c', Some d) \<Rightarrow>
                         if a = 0 \<and> b = 0 then scan_string rest (acc @ [char_of (16 * c' + d)])
                         else None
                     | _ \<Rightarrow> None)
                | _ \<Rightarrow> None)
             else None)
      else if (of_char c :: nat) < 32 then None
      else scan_string cs (acc @ [c]))"

definition starts_with :: "string \<Rightarrow> string \<Rightarrow> bool" where
  "starts_with s p = (take (length p) s = p)"

text \<open>
  The value at the head of \<open>s\<close> and the text after it. The first argument bounds the
  depth of the calls; \<open>std_loads\<close> starts with more than any text of its length needs.
\<close>

fun parse_value :: "nat \<Rightarrow> string \<Rightarrow> (string json \<times> string) option"
  and parse_items :: "nat \<Rightarrow> string \<Rightarrow> string json list \<Rightarrow> (string json \<times> string) option"
  and parse_pairs :: "nat \<Rightarrow> string \<Rightarrow> (string \<times> string json) list \<Rightarrow> (string json \<times> string) option"
where
  "parse_value 0 s = None"
| "parse_value (Suc n) s =
     (case s of
        [] \<Rightarrow> None
      | c # cs \<Rightarrow>
          if c = CHR 0x22 then
            (case scan_string cs [] of None \<Rightarrow> None | Some (str, rest) \<Rightarrow> Some (JStr str, rest))
          else if c = CHR ''{'' then
            (case skip_ws cs of
               [] \<Rightarrow> None
             | d # ds \<Rightarrow> if d = CHR ''}'' then Some (JObj [], ds) else parse_pairs n (d # ds) [])
          else if c = CHR ''['' then
            (case skip_ws cs of
               [] \<Rightarrow> None
             | d # ds \<Rightarrow> if d = CHR '']'' then Some (JArr [], ds) else parse_items n (d # ds) [])
          else if starts_with s ''null'' then Some (JNull, drop 4 s)
          else if starts_with s ''true'' then Some (JBool True, drop 4 s)
          else if starts_with s ''false'' then Some (JBool False, drop 5 s)
          else (case scan_number s of
                  Some r \<Rightarrow> Some r
                | None \<Rightarrow>
                    if starts_with s ''NaN'' then Some (JFloat ''NaN'', drop 3 s)
                    else if starts_with s ''Infinity'' then Some (JFloat ''Infinity'', drop 8 s)
                    else if starts_with s ''-Infinity'' then Some (JFloat ''-Infinity'', drop 9 s)
                    else None))"
| "parse_items 0 s acc = None"
| "parse_items (Suc n) s acc =
     (case parse_value n s of
        None \<Rightarrow> None
      | Some (v, rest) \<Rightarrow>
          (case skip_ws rest of
             [] \<Rightarrow> None
           | d # ds \<Rightarrow>
               if d = CHR '']'' then Some (JArr (acc @ [v]), ds)
               else if d = CHR '','' then parse_items n (skip_ws ds) (acc @ [v])
               else None))"
| "parse_pairs 0 s acc = None"
| "parse_pairs (Suc n) s acc =
     (case s of
        [] \<Rightarrow> None
      | q # qs \<Rightarrow>
          if q \<noteq> CHR 0x22 then None
          else
            (case scan_string qs [] of
               None \<Rightarrow> None
             | Some (key, rest) \<Rightarrow>
                 (case skip_ws rest of
                    [] \<Rightarrow> None
                  | c # cs \<Rightarrow>
                      if c \<noteq> CHR '':'' then None
                      else
                        (case parse_value n (skip_ws cs) of
                           None \<Rightarrow> None
                         | Some (v, rest') \<Rightarrow>
                             (case skip_ws rest' of
                                [] \<Rightarrow> None
                              | d # ds \<Rightarrow>
                                  if d = CHR ''}'' then Some (JObj (AList_update key v acc), ds)
                                  else if d = CHR '','' then
                                    parse_pairs n (skip_ws ds) (AList_update key v acc)
                                  else None)))))"

definition std_loads :: "string \<Rightarrow> string json option" where
  "std_loads s =
     (case parse_value (2 * length s + 2) (skip_ws s) of
        None \<Rightarrow> None
      | Some (v, rest) \<Rightarrow> if skip_ws rest = [] then Some v else None)"

text \<open>Printing: a string literal, then a value at a nesting level.\<close>

definition escape_char :: "bool \<Rightarrow> char \<Rightarrow> string" where
  "escape_char ensure_ascii c =
     (let n = (of_char c :: nat) in
      if c = CHR 0x22 \<or> c = CHR 0x5C then [CHR 0x5C, c]
      else if c = CHR 0x0A then [CHR 0x5C, CHR ''n'']
      else if c = CHR 0x0D then [CHR 0x5C, CHR ''r'']
      else if c = CHR 0x09 then [CHR 0x5C, CHR ''t'']
      else if c = CHR 0x08 then [CHR 0x5C, CHR ''b'']
      else if c = CHR 0x0C then [CHR 0x5C, CHR ''f'']
      else if n < 32 \<or> (ensure_ascii \<and> n \<ge> 127)
      then [CHR 0x5C, CHR ''u'', CHR ''0'', CHR ''0'', hex_char (n div 16), hex_char (n mod 16)]
      else [c])"

definition quote_string :: "bool \<Rightarrow> string \<Rightarrow> string" where
  "quote_string ensure_ascii s = CHR 0x22 # concat (map (escape_char ensure_ascii) s) @ [CHR 0x22]"

definition newline_indent :: "nat \<Rightarrow> string" where
  "newline_indent level = CHR 0x0A # replicate (2 * level) CHR '' ''"

fun dumps_at :: "bool \<Rightarrow> nat \<Rightarrow> string json \<Rightarrow> string" where
  "dumps_at a level JNull = ''null''"
| "dumps_at a level (JBool b) = (if b then ''true'' else ''false'')"
| "dumps_at a level (JInt i) = show_int i"
| "dumps_at a level (JFloat x) = x"
| "dumps_at a level (JStr s) = quote_string a s"
| "dumps_at a level (JArr xs) =
     (if xs = [] then ''[]''
      else ''['' @ newline_indent (level + 1)
           @ join ('','' @ newline_indent (level + 1)) (map (dumps_at a (level + 1)) xs)
           @ newline_indent level @ '']'')"
| "dumps_at a level (JObj kvs) =
     (if kvs = [] then ''{}''
      else ''{'' @ newline_indent (level + 1)
           @ join ('','' @ newline_indent (level + 1))
               (map (\<lambda>(k, v). quote_string a k @ '': '' @ dumps_at a (level + 1) v) kvs)
           @ newline_indent level @ ''}'')"

definition std_float_repr :: "string \<Rightarrow> string" where
  "std_float_repr x =
     (if x = ''NaN'' then ''nan'' else if x = ''Infinity'' then ''inf''
      else if x = ''-Infinity'' then ''-inf'' else x)"

definition std_lib :: "string pylib" where
  "std_lib = \<lparr>loads = std_loads, dumps = (\<lambda>a v. dumps_at a 0 v), float_repr = std_float_repr\<rparr>"


section \<open>The specification's words as definitions\<close>

text \<open>
  The specification speaks of ``the first balanced JSON object found in'' the output of
  the tool. Read literally: at the first opening brace from which some text parses as a
  JSON object, the shortest such text.
\<close>

fun first_some :: "('a \<Rightarrow> 'b option) \<Rightarrow> 'a list \<Rightarrow> 'b option" where
  "first_some f [] = None"
| "first_some f (x # xs) = (case f x of Some y \<Rightarrow> Some y | None \<Rightarrow> first_some f xs)"

definition as_object :: "'f json option \<Rightarrow> 'f json option" where
  "as_object r = (case r of Some (JObj d) \<Rightarrow> Some (JObj d) | _ \<Rightarrow> None)"

definition object_prefix :: "'f pylib \<Rightarrow> string \<Rightarrow> 'f json option" where
  "object_prefix lib s = first_some (\<lambda>n. as_object (loads lib (take n s))) [1..<length s + 1]"

fun first_json_object :: "'f pylib \<Rightarrow> string \<Rightarrow> 'f json option" where
  "first_json_object lib [] = None"
| "first_json_object lib (c # cs) =
     (if c = CHR ''{'' then
        (case object_prefix lib (c # cs) of
           Some v \<Rightarrow> Some v
         | None \<Rightarrow> first_json_object lib cs)
      else first_json_object lib cs)"

text \<open>
  A classification response is acceptable when ``all three expected fields are present,
  each is a sequence, and every element belongs to the field's fixed enumeration''.
\<close>

fun in_enumeration :: "string list \<Rightarrow> 'f json \<Rightarrow> bool" where
  "in_enumeration allowed (JStr s) = (s \<in> set allowed)"
| "in_enumeration allowed v = False"

definition field_accepted :: "'f json \<Rightarrow> string \<Rightarrow> bool" where
  "field_accepted response field =
     (case response of
        JObj d \<Rightarrow>
          (case map_of d field of
             Some (JArr xs) \<Rightarrow> list_all (in_enumeration (valid_values field)) xs
           | _ \<Rightarrow> False)
      | _ \<Rightarrow> False)"

definition response_accepted :: "'f json \<Rightarrow> bool" where
  "response_accepted response = list_all (field_accepted response) expected_fields"

definition empty_fields :: "(string \<times> 'f json) list" where
  "empty_fields =
     [(''target_persona'', JArr []), (''startup_phase'', JArr []), (''problem_category'', JArr [])]"

definition empty_response :: "'f json" where
  "empty_response = JObj empty_fields"

section \<open>Concrete runs\<close>

text \<open>An empty world, and a tool that prints the same text whatever it is asked.\<close>

definition no_files :: world where
  "no_files = \<lparr>files = Map.empty, dirs = Map.empty, written = [], calls = [], stdout = []\<rparr>"

definition answering :: "string \<Rightarrow> tool" where
  "answering out = (\<lambda>history prompt. Completed out)"







text \<open>A folder of records, a progress log that lists one of them, and answers of the tool.\<close>

definition sunk_text :: string where
  \<open>sunk_text = ''{"knowledge_piece_name": "Sunk Cost Fallacy", "definition": "Throwing good money after bad"}''\<close>

definition sunk_record :: "(string \<times> string json) list" where
  "sunk_record =
     [(''knowledge_piece_name'', JStr ''Sunk Cost Fallacy''),
      (''definition'', JStr ''Throwing good money after bad'')]"

definition done_text :: string where
  \<open>done_text = ''{"knowledge_piece_name": "Anchoring", "target_persona": ["founder"], ''
     @ ''"startup_phase": ["seed"], "problem_category": ["pricing"]}''\<close>

definition done_record :: "(string \<times> string json) list" where
  "done_record =
     [(''knowledge_piece_name'', JStr ''Anchoring''), (''target_persona'', JArr [JStr ''founder'']),
      (''startup_phase'', JArr [JStr ''seed'']), (''problem_category'', JArr [JStr ''pricing''])]"

definition log_text :: string where
  \<open>log_text = ''{"processed_files": ["done.json"], "last_updated": 1730000000.5, "total_processed": 1}''\<close>


definition kb_world :: world where
  "kb_world = no_files
     \<lparr>files := [''kb/sunk.json'' \<mapsto> Content sunk_text, ''kb/done.json'' \<mapsto> Content done_text,
                ''progress.json'' \<mapsto> Content log_text],
      dirs := [''kb'' \<mapsto> [''sunk.json'', ''notes.txt'', ''done.json'']]\<rparr>"

definition broken_log_world :: world where
  \<open>broken_log_world = kb_world
     \<lparr>files := (files kb_world)(''progress.json'' \<mapsto> Content ''{"processed_files": ["done.json"'')\<rparr>\<close>

definition sunk_prompt :: string where
  "sunk_prompt = (case create_claude_prompt std_lib (JObj sunk_record) of Inl e \<Rightarrow> [] | Inr p \<Rightarrow> p)"

definition two_objects_out :: string where
  \<open>two_objects_out = ''{"a": 1} {"b": 2}''\<close>

definition wrapped_out :: string where
  \<open>wrapped_out = ''Here is the JSON: {"target_persona": []} Done.''\<close>

definition bad_phase_out :: string where
  \<open>bad_phase_out = ''{"target_persona": ["founder"], "startup_phase": ["launch"], "problem_category": ["pricing"]}''\<close>

definition bad_phase_response :: "string json" where
  "bad_phase_response =
     JObj [(''target_persona'', JArr [JStr ''founder'']), (''startup_phase'', JArr [JStr ''launch'']),
           (''problem_category'', JArr [JStr ''pricing''])]"

definition empty_out :: string where
  \<open>empty_out = ''{"target_persona": [], "startup_phase": [], "problem_category": []}''\<close>

definition overwriting_out :: string where
  \<open>overwriting_out = ''{"target_persona": [], "startup_phase": [], "problem_category": [], ''
     @ ''"definition": "changed"}''\<close>


section \<open>The splitter: what a run writes\<close>












section \<open>The enricher: reading the answer of the tool\<close>

lemma py_find_absent: "c \<notin> set s \<Longrightarrow> py_find c s = - 1"
  by (induction s) auto

lemma py_find_first: "c \<notin> set pre \<Longrightarrow> py_find c (pre @ c # rest) = int (length pre)"
  by (induction pre) (auto simp: Let_def)

lemma py_rfind_absent: "c \<notin> set s \<Longrightarrow> py_rfind c s = - 1"
  by (simp add: py_rfind_def py_find_absent)

lemma py_rfind_last: "c \<notin> set post \<Longrightarrow> py_rfind c (pre @ c # post) = int (length pre)"
proof -
  assume "c \<notin> set post"
  then have "py_find c (rev post @ c # rev pre) = int (length post)"
    using py_find_first [of c "rev post" "rev pre"] by simp
  then show ?thesis by (simp add: py_rfind_def Let_def)
qed

lemma py_rfind_bound: "py_rfind c s < int (length s)"
proof (cases "c \<in> set s")
  case True
  then obtain pre post where "s = pre @ c # post" "c \<notin> set post"
    by (meson split_list_last)
  then show ?thesis by (simp add: py_rfind_last)
next
  case False
  then show ?thesis by (simp add: py_rfind_absent)
qed

lemma py_rfind_append: "c \<notin> set ys \<Longrightarrow> py_rfind c (xs @ ys) = py_rfind c xs"
proof (cases "c \<in> set xs")
  case True
  assume ys: "c \<notin> set ys"
  from True obtain pre post where xs: "xs = pre @ c # post" "c \<notin> set post"
    by (meson split_list_last)
  with ys have "py_rfind c (pre @ c # (post @ ys)) = int (length pre)"
    by (intro py_rfind_last) simp
  with xs show ?thesis by (simp add: py_rfind_last)
next
  case False
  assume "c \<notin> set ys"
  with False show ?thesis by (simp add: py_rfind_absent)
qed

lemma parse_response_between:
  assumes "py_strip out = pre @ body @ post"
      and "CHR ''{'' \<notin> set pre" and "CHR ''}'' \<notin> set post"
      and "body \<noteq> []" and "hd body = CHR ''{''" and "last body = CHR ''}''"
  shows "parse_response lib out = loads lib body"
proof -
  from assms(4,5) obtain tl where b1: "body = CHR ''{'' # tl" by (cases body) auto
  with assms(6) have "tl \<noteq> []" by auto
  with assms(6) b1 obtain mid where tl: "tl = mid @ [CHR ''}'']"
    by (metis append_butlast_last_id last_ConsR)
  have body: "body = CHR ''{'' # mid @ [CHR ''}'']" by (simp add: b1 tl)
  have s1: "py_strip out = pre @ CHR ''{'' # (mid @ CHR ''}'' # post)"
    by (simp add: assms(1) body)
  have s2: "py_strip out = (pre @ CHR ''{'' # mid) @ CHR ''}'' # post"
    by (simp add: assms(1) body)
  have f: "py_find CHR ''{'' (py_strip out) = int (length pre)"
    unfolding s1 using assms(2) by (rule py_find_first)
  have r: "py_rfind CHR ''}'' (py_strip out) = int (length pre) + 1 + int (length mid)"
    unfolding s2 using py_rfind_last [OF assms(3), of "pre @ CHR ''{'' # mid"] by simp
  have "py_slice (py_strip out) (int (length pre)) (int (length pre) + 1 + int (length mid) + 1) = body"
    by (simp add: py_slice_def s1 body nat_add_distrib)
  with f r show ?thesis by (simp add: parse_response_def Let_def)
qed

lemma parse_response_no_braces:
  assumes "CHR ''{'' \<notin> set (py_strip out)
         \<or> CHR ''}'' \<notin> set (dropWhile (\<lambda>c. c \<noteq> CHR ''{'') (py_strip out))"
  shows "parse_response lib out = None"
proof (cases "CHR ''{'' \<in> set (py_strip out)")
  case False
  then show ?thesis by (simp add: parse_response_def py_find_absent)
next
  case True
  then obtain pre rest where s: "py_strip out = pre @ CHR ''{'' # rest" "CHR ''{'' \<notin> set pre"
    by (meson split_list_first)
  then have dw: "dropWhile (\<lambda>c. c \<noteq> CHR ''{'') (py_strip out) = CHR ''{'' # rest"
    by (auto simp: dropWhile_append3)
  with assms True have no: "CHR ''}'' \<notin> set (CHR ''{'' # rest)" by simp
  have f: "py_find CHR ''{'' (py_strip out) = int (length pre)"
    unfolding s(1) using s(2) by (rule py_find_first)
  have "py_rfind CHR ''}'' (pre @ (CHR ''{'' # rest)) = py_rfind CHR ''}'' pre"
    using no by (rule py_rfind_append)
  then have "py_rfind CHR ''}'' (py_strip out) < int (length pre)"
    using py_rfind_bound [of "CHR ''}''" pre] by (simp add: s(1))
  with f show ?thesis by (simp add: parse_response_def Let_def)
qed

text \<open>
  Claim C2, as the code has it. The parser strips the output and hands \<^verbatim>\<open>json.loads\<close>
  the text from the first opening brace to the last closing brace. So when the stripped
  output is some text without an opening brace, then a text \<open>body\<close> from a brace to a
  brace, then some text without a closing brace, the answer is the parse of \<open>body\<close>,
  \<^verbatim>\<open>None\<close> when \<open>body\<close> does not parse. The answer is \<^verbatim>\<open>None\<close> as well when the
  output has no opening brace, or no closing brace after the first opening one.
\<close>

theorem call_parses_first_to_last_brace:
  assumes "tool (calls w) prompt = Completed out"
  shows "(py_strip out = pre @ body @ post \<and> CHR ''{'' \<notin> set pre \<and> CHR ''}'' \<notin> set post
            \<and> body \<noteq> [] \<and> hd body = CHR ''{'' \<and> last body = CHR ''}''
          \<longrightarrow> fst (call_claude_code lib tool prompt w) = loads lib body)
       \<and> (CHR ''{'' \<notin> set (py_strip out)
            \<or> CHR ''}'' \<notin> set (dropWhile (\<lambda>c. c \<noteq> CHR ''{'') (py_strip out))
          \<longrightarrow> fst (call_claude_code lib tool prompt w) = None)"
  using assms
  by (auto simp: call_claude_code_def parse_response_between parse_response_no_braces)

text \<open>An object wrapped in a sentence is read; a sentence without braces gives \<^verbatim>\<open>None\<close>.\<close>

theorem call_parses_first_to_last_brace_witness:
  "fst (call_claude_code std_lib (answering wrapped_out) ''classify'' no_files)
     = Some (JObj [(''target_persona'', JArr [])])
   \<and> fst (call_claude_code std_lib (answering ''no JSON here'') ''classify'' no_files) = None"
proof -
  have t1: "answering wrapped_out (calls no_files) ''classify'' = Completed wrapped_out"
    by (simp add: answering_def)
  have t2: "answering ''no JSON here'' (calls no_files) ''classify'' = Completed ''no JSON here''"
    by (simp add: answering_def)
  have a: \<open>py_strip wrapped_out = ''Here is the JSON: '' @ ''{"target_persona": []}'' @ '' Done.''
      \<and> CHR ''{'' \<notin> set ''Here is the JSON: '' \<and> CHR ''}'' \<notin> set '' Done.''
      \<and> ''{"target_persona": []}'' \<noteq> [] \<and> hd ''{"target_persona": []}'' = CHR ''{''
      \<and> last ''{"target_persona": []}'' = CHR ''}''\<close>
    by code_simp
  have b: \<open>loads std_lib ''{"target_persona": []}'' = Some (JObj [(''target_persona'', JArr [])])\<close>
    by code_simp
  have c: "CHR ''{'' \<notin> set (py_strip ''no JSON here'')
      \<or> CHR ''}'' \<notin> set (dropWhile (\<lambda>c. c \<noteq> CHR ''{'') (py_strip ''no JSON here''))"
    by code_simp
  from call_parses_first_to_last_brace
         [of "answering wrapped_out" no_files "''classify''" wrapped_out
             "''Here is the JSON: ''" \<open>''{"target_persona": []}''\<close> "'' Done.''" std_lib] t1 a b
  have "fst (call_claude_code std_lib (answering wrapped_out) ''classify'' no_files)
     = Some (JObj [(''target_persona'', JArr [])])" by simp
  moreover from call_parses_first_to_last_brace
         [of "answering ''no JSON here''" no_files "''classify''" "''no JSON here''" "[]" "[]" "[]" std_lib] t2 c
  have "fst (call_claude_code std_lib (answering ''no JSON here'') ''classify'' no_files) = None"
    by blast
  ultimately show ?thesis by simp
qed

text \<open>
  Claim C2 as stated fails: in \<open>two_objects_out\<close> the first balanced JSON object is
  \<^verbatim>\<open>{"a": 1}\<close>, and the parser, which takes the text up to the last closing brace,
  answers \<^verbatim>\<open>None\<close>.
\<close>

theorem first_object_not_parsed:
  "first_json_object std_lib two_objects_out = Some (JObj [(''a'', JInt 1)])
   \<and> fst (call_claude_code std_lib (answering two_objects_out) ''classify'' no_files) = None"
  by code_simp

section \<open>The enricher: validation and one file\<close>

lemma check_values_accepts:
  "check_values allowed xs = Inr True \<longleftrightarrow> list_all (in_enumeration allowed) xs"
proof (induction xs)
  case Nil
  then show ?case by simp
next
  case (Cons x xs)
  then show ?case by (cases x) auto
qed

lemma check_fields_accepts:
  "check_fields fs response = Inr True \<longleftrightarrow> list_all (field_accepted response) fs"
proof (induction fs)
  case Nil
  then show ?case by simp
next
  case (Cons field rest)
  show ?case
  proof (cases response)
    case (JObj d)
    show ?thesis
    proof (cases "map_of d field")
      case None
      then have "field \<notin> fst ` set d" by (simp add: map_of_eq_None_iff)
      with None show ?thesis by (simp add: JObj field_accepted_def)
    next
      case (Some v)
      then have "field \<in> fst ` set d" by (metis map_of_eq_None_iff option.distinct(1))
      with Some Cons show ?thesis
        by (cases v; cases "check_values (valid_values field) (case v of JArr xs \<Rightarrow> xs | _ \<Rightarrow> [])")
           (auto simp: JObj field_accepted_def check_values_accepts [symmetric] split: bool.splits)
    qed
  qed (auto simp: field_accepted_def split: bool.splits)
qed

lemma validate_accepts:
  "validate_claude_response response = Inr True \<longleftrightarrow> response_accepted response"
  by (simp add: validate_claude_response_def response_accepted_def check_fields_accepts)

lemma call_completed:
  "tool (calls w) prompt = Completed out \<Longrightarrow>
   call_claude_code lib tool prompt w = (parse_response lib out, w\<lparr>calls := calls w @ [prompt]\<rparr>)"
  by (simp add: call_claude_code_def)

text \<open>
  Claim C3. A record file lacks a target field, the prompt is built, and the tool
  prints an output that parses to a response which the specification rejects: an
  expected field is missing, or is not a sequence, or has an element outside its
  enumeration. Then \<^verbatim>\<open>_enrich_file\<close> returns \<^verbatim>\<open>False\<close> and the world is as before but
  for the one call of the tool: no file is written, so the record file is unchanged.
\<close>

theorem rejected_response_leaves_file:
  assumes "read_text w path = Inr s"
      and "loads lib s = Some content"
      and "all_in expected_fields content = Inr False"
      and "create_claude_prompt lib content = Inr prompt"
      and "tool (calls w) prompt = Completed out"
      and "parse_response lib out = Some response"
      and "\<not> response_accepted response"
  shows "enrich_file lib tool path w = (False, w\<lparr>calls := calls w @ [prompt]\<rparr>)"
proof -
  from assms(7) have "validate_claude_response response \<noteq> Inr True"
    by (simp add: validate_accepts)
  then have "(case validate_claude_response response of
               Inl err \<Rightarrow> (False, w\<lparr>calls := calls w @ [prompt]\<rparr>)
             | Inr False \<Rightarrow> (False, w\<lparr>calls := calls w @ [prompt]\<rparr>)
             | Inr True \<Rightarrow> X) = (False, w\<lparr>calls := calls w @ [prompt]\<rparr>)" for X
    by (cases "validate_claude_response response") (auto split: bool.splits)
  with assms(1-6) show ?thesis
    by (simp add: enrich_file_def call_completed expected_fields_def)
qed

text \<open>
  Claim C4. A record file that holds an object with all three target fields is
  enriched with success, and the world is as before: the tool is not called and no file
  is written, so the file is unchanged byte for byte.
\<close>

theorem complete_record_untouched:
  assumes "read_text w path = Inr s"
      and "loads lib s = Some (JObj d)"
      and "{''target_persona'', ''startup_phase'', ''problem_category''} \<subseteq> fst ` set d"
  shows "enrich_file lib tool path w = (True, w)"
  using assms by (simp add: enrich_file_def)

text \<open>
  What \<^verbatim>\<open>content.update\<close> keeps: every key of the record is still there, and a key that
  the response does not carry keeps its value.
\<close>

lemma map_of_AList_update: "map_of (AList_update k v d) = (map_of d)(k \<mapsto> v)"
  by (induction d) (auto simp: fun_eq_iff)

lemma keys_AList_update: "fst ` set (AList_update k v d) = insert k (fst ` set d)"
  by (induction d) auto

lemma keys_dict_update: "fst ` set (dict_update d r) = fst ` set d \<union> fst ` set r"
  by (induction r arbitrary: d) (auto simp: keys_AList_update)

lemma map_of_dict_update_other:
  "k \<notin> fst ` set r \<Longrightarrow> map_of (dict_update d r) k = map_of d k"
  by (induction r arbitrary: d) (auto simp: map_of_AList_update)

text \<open>
  Claim C9. The response that gives each target field the empty list passes
  validation; and when the tool answers with it for a record that lacks a target field,
  \<^verbatim>\<open>_enrich_file\<close> returns \<^verbatim>\<open>True\<close> and writes the record with all three fields
  empty.
\<close>

theorem empty_classification_accepted:
  assumes "read_text w path = Inr s"
      and "loads (lib :: 'f pylib) s = Some (JObj c)"
      and "all_in expected_fields (JObj c) = Inr False"
      and "create_claude_prompt lib (JObj c) = Inr prompt"
      and "tool (calls w) prompt = Completed out"
      and "parse_response lib out = Some empty_response"
  shows "validate_claude_response (empty_response :: 'f json) = Inr True
       \<and> enrich_file lib tool path w
           = (True, write_text path (dumps lib False (JObj (dict_update c empty_fields)))
                      (w\<lparr>calls := calls w @ [prompt]\<rparr>))
       \<and> list_all (\<lambda>field. map_of (dict_update c (empty_fields :: (string \<times> 'f json) list)) field
                          = Some (JArr [])) expected_fields"
proof -
  have v: "validate_claude_response (empty_response :: 'f json) = Inr True"
    by (simp add: validate_claude_response_def empty_response_def empty_fields_def
                  expected_fields_def)
  have "enrich_file lib tool path w
          = (True, write_text path (dumps lib False (JObj (dict_update c empty_fields)))
                     (w\<lparr>calls := calls w @ [prompt]\<rparr>))"
    using assms v unfolding empty_response_def
    by (simp add: enrich_file_def call_completed expected_fields_def)
  moreover have "list_all (\<lambda>field. map_of (dict_update c (empty_fields :: (string \<times> 'f json) list)) field
                          = Some (JArr [])) expected_fields"
    by (simp add: expected_fields_def empty_fields_def map_of_AList_update)
  ultimately show ?thesis using v by blast
qed

subsection \<open>Runs on the folder \<open>kb\<close>\<close>

lemma sunk_prompt_built: "create_claude_prompt std_lib (JObj sunk_record) = Inr sunk_prompt"
  by (simp add: sunk_prompt_def create_claude_prompt_def sunk_record_def dict_get_def)

text \<open>The tool answers with a phase outside the enumeration: failure, and nothing written.\<close>

theorem rejected_response_leaves_file_witness:
  "enrich_file std_lib (answering bad_phase_out) ''kb/sunk.json'' kb_world
     = (False, kb_world\<lparr>calls := calls kb_world @ [sunk_prompt]\<rparr>)"
proof -
  have 1: "read_text kb_world ''kb/sunk.json'' = Inr sunk_text" by code_simp
  have 2: "loads std_lib sunk_text = Some (JObj sunk_record)" by code_simp
  have 3: "all_in expected_fields (JObj sunk_record :: string json) = Inr False" by code_simp
  have 5: "answering bad_phase_out (calls kb_world) sunk_prompt = Completed bad_phase_out"
    by (simp add: answering_def)
  have 6: "parse_response std_lib bad_phase_out = Some bad_phase_response" by code_simp
  have 7: "\<not> response_accepted bad_phase_response" by code_simp
  from rejected_response_leaves_file
         [where tool = "answering bad_phase_out" and w = kb_world, OF 1 2 3 sunk_prompt_built 5 6 7]
  show ?thesis .
qed

text \<open>The record \<open>done.json\<close> has all three fields: success, and the world as before.\<close>

theorem complete_record_untouched_witness:
  "enrich_file std_lib (answering empty_out) ''kb/done.json'' kb_world = (True, kb_world)"
proof -
  have 1: "read_text kb_world ''kb/done.json'' = Inr done_text" by code_simp
  have 2: "loads std_lib done_text = Some (JObj done_record)" by code_simp
  have 3: "{''target_persona'', ''startup_phase'', ''problem_category''} \<subseteq> fst ` set done_record"
    by (simp add: done_record_def)
  from complete_record_untouched [OF 1 2 3] show ?thesis .
qed

text \<open>The tool answers with three empty lists: success, and the record gets them.\<close>

theorem empty_classification_accepted_witness:
  "validate_claude_response (empty_response :: string json) = Inr True
   \<and> enrich_file std_lib (answering empty_out) ''kb/sunk.json'' kb_world
       = (True, write_text ''kb/sunk.json''
                  (dumps std_lib False (JObj (dict_update sunk_record empty_fields)))
                  (kb_world\<lparr>calls := calls kb_world @ [sunk_prompt]\<rparr>))
   \<and> dict_update sunk_record empty_fields = sunk_record @ empty_fields"
proof -
  have 1: "read_text kb_world ''kb/sunk.json'' = Inr sunk_text" by code_simp
  have 2: "loads std_lib sunk_text = Some (JObj sunk_record)" by code_simp
  have 3: "all_in expected_fields (JObj sunk_record :: string json) = Inr False" by code_simp
  have 5: "answering empty_out (calls kb_world) sunk_prompt = Completed empty_out"
    by (simp add: answering_def)
  have 6: "parse_response std_lib empty_out = Some empty_response" by code_simp
  have 7: "dict_update sunk_record (empty_fields :: (string \<times> string json) list)
             = sunk_record @ empty_fields" by code_simp
  from empty_classification_accepted
         [where tool = "answering empty_out" and w = kb_world, OF 1 2 3 sunk_prompt_built 5 6] 7
  show ?thesis by simp
qed

text \<open>
  Claim C6 does not hold of the code. The tool answers with the three target fields and
  a fourth key, \<^verbatim>\<open>definition\<close>. Validation looks at the three expected fields only, and
  \<^verbatim>\<open>content.update\<close> assigns every key of the response: the enrichment succeeds and the
  record's \<^verbatim>\<open>definition\<close> is replaced.
\<close>

theorem extra_key_overwrites_record:
  "read_json std_lib kb_world ''kb/sunk.json''
     = Some (JObj [(''knowledge_piece_name'', JStr ''Sunk Cost Fallacy''),
                   (''definition'', JStr ''Throwing good money after bad'')])
   \<and> fst (enrich_file std_lib (answering overwriting_out) ''kb/sunk.json'' kb_world) = True
   \<and> read_json std_lib (snd (enrich_file std_lib (answering overwriting_out) ''kb/sunk.json'' kb_world))
         ''kb/sunk.json''
     = Some (JObj [(''knowledge_piece_name'', JStr ''Sunk Cost Fallacy''),
                   (''definition'', JStr ''changed''),
                   (''target_persona'', JArr []), (''startup_phase'', JArr []),
                   (''problem_category'', JArr [])])"
  by code_simp

section \<open>The enricher: the progress log and the pending files\<close>





lemma attempted_enrich_loop:
  "attempted (enrich_loop lib tool clock names r) = attempted r @ names"
proof (induction names arbitrary: r)
  case Nil
  then show ?case by simp
next
  case (Cons name names)
  show ?case
  proof (cases "enrich_file lib tool (file_path (self r) name) (env r)")
    case (Pair ok w')
    with Cons show ?thesis by (cases ok) (simp_all add: Let_def)
  qed
qed

lemma attempted_enrich_all:
  "attempted (enrich_all_files lib tool clock e w) = get_json_files w e"
  by (simp add: enrich_all_files_def attempted_enrich_loop)


text \<open>
  Claim C7. \<^verbatim>\<open>_save_progress\<close> writes to the log the text of an object with exactly the
  keys \<^verbatim>\<open>processed_files\<close>, \<^verbatim>\<open>last_updated\<close> and \<^verbatim>\<open>total_processed\<close>, in this order:
  the list of the processed set, the time as a float, and the length of that list.
\<close>

theorem progress_log_shape:
  "files (save_progress lib now e w) (progress_log_file e)
     = Some (Content (dumps lib True (JObj (progress_data now e))))
   \<and> map fst (progress_data now e) = [''processed_files'', ''last_updated'', ''total_processed'']
   \<and> map_of (progress_data now e) ''processed_files'' = Some (JArr (processed_files e))
   \<and> map_of (progress_data now e) ''last_updated'' = Some (JFloat now)
   \<and> map_of (progress_data now e) ''total_processed''
       = Some (JInt (int (length (processed_files e))))"
  by (simp add: save_progress_def write_text_def progress_data_def)

text \<open>
  Claim C8. The progress log exists and cannot be read, or its text does not parse.
  Constructing the enricher succeeds with an empty processed set, and every entry of
  the folder that matches \<^verbatim>\<open>*.json\<close> is pending and handed to \<^verbatim>\<open>_enrich_file\<close>.
\<close>

theorem unreadable_log_starts_fresh:
  assumes "dirs w folder = Some names"
      and "files w log_file = Some node"
      and "read_json (lib :: 'f pylib) w log_file = None"
  shows "init lib w folder log_file
           = Inr \<lparr>input_folder = folder, progress_log_file = log_file, processed_files = []\<rparr>
       \<and> get_json_files w \<lparr>input_folder = folder, progress_log_file = log_file,
                            processed_files = ([] :: 'f json list)\<rparr>
           = filter (\<lambda>name. ends_with name ''.json'') names
       \<and> attempted (enrich_all_files lib tool clock
             \<lparr>input_folder = folder, progress_log_file = log_file, processed_files = []\<rparr> w)
           = filter (\<lambda>name. ends_with name ''.json'') names"
proof -
  let ?e0 = "\<lparr>input_folder = folder, progress_log_file = log_file, processed_files = ([] :: 'f json list)\<rparr>"
  have lp: "load_progress lib w ?e0 = ?e0"
    using assms(2,3)
    by (auto simp: load_progress_def read_json_def split: sum.splits option.splits)
  have g: "get_json_files w ?e0 = filter (\<lambda>name. ends_with name ''.json'') names"
    using assms(1) by (simp add: get_json_files_def all_json_files_def set_member_def)
  from assms(1) lp g show ?thesis
    by (simp add: init_def attempted_enrich_all)
qed


subsection \<open>Runs\<close>


text \<open>The log is cut off in the middle: both records of \<open>kb\<close> are pending.\<close>

theorem unreadable_log_starts_fresh_witness:
  "init std_lib broken_log_world ''kb'' ''progress.json''
     = Inr \<lparr>input_folder = ''kb'', progress_log_file = ''progress.json'', processed_files = []\<rparr>
   \<and> get_json_files broken_log_world
         \<lparr>input_folder = ''kb'', progress_log_file = ''progress.json'',
          processed_files = ([] :: string json list)\<rparr>
       = [''sunk.json'', ''done.json'']"
proof -
  have 1: "dirs broken_log_world ''kb'' = Some [''sunk.json'', ''notes.txt'', ''done.json'']"
    by code_simp
  have 2: \<open>files broken_log_world ''progress.json'' = Some (Content ''{"processed_files": ["done.json"'')\<close>
    by code_simp
  have 3: "read_json std_lib broken_log_world ''progress.json'' = None" by code_simp
  have 4: "filter (\<lambda>name. ends_with name ''.json'') [''sunk.json'', ''notes.txt'', ''done.json'']
           = [''sunk.json'', ''done.json'']"
    by code_simp
  from unreadable_log_starts_fresh
         [where tool = "answering empty_out" and clock = "\<lambda>k. ''1730000001.0''", OF 1 2 3]
  show ?thesis unfolding 4 by simp
qed


end
